theory Spec2Isabelle
  imports Complex_Main
begin

section \<open>Numbers and vectors\<close>

text \<open>
  The page \<^verbatim>\<open>src/pages/EarthAfricaPage.tsx\<close> computes with JavaScript numbers. They are
  modelled as mathematical reals: rounding is not part of the model, so an equation
  proved below is the exact law that the program follows up to floating-point
  tolerance.
\<close>

datatype vec3 = Vector3 (vx: real) (vy: real) (vz: real)

text \<open>
  Modelled from the spec: the methods of \<^verbatim>\<open>THREE.Vector3\<close> (package \<^verbatim>\<open>three\<close>, imported by
  the page and not part of its source) that the page calls: \<^verbatim>\<open>add\<close>, \<^verbatim>\<open>multiplyScalar\<close>,
  \<^verbatim>\<open>length\<close>, \<^verbatim>\<open>normalize\<close>, \<^verbatim>\<open>lerp\<close> and \<^verbatim>\<open>distanceTo\<close>. \<^verbatim>\<open>clone\<close> is the identity on
  values. \<^verbatim>\<open>normalize\<close> divides by \<^verbatim>\<open>length() || 1\<close>, so the zero vector stays zero.
\<close>

definition add_v :: "vec3 \<Rightarrow> vec3 \<Rightarrow> vec3" where
  "add_v a b = Vector3 (vx a + vx b) (vy a + vy b) (vz a + vz b)"

definition multiplyScalar :: "vec3 \<Rightarrow> real \<Rightarrow> vec3" where
  "multiplyScalar v s = Vector3 (vx v * s) (vy v * s) (vz v * s)"

definition length_v :: "vec3 \<Rightarrow> real" where
  "length_v v = sqrt (vx v * vx v + vy v * vy v + vz v * vz v)"

definition normalize_v :: "vec3 \<Rightarrow> vec3" where
  "normalize_v v =
     multiplyScalar v (1 / (if length_v v = 0 then 1 else length_v v))"

definition lerp :: "vec3 \<Rightarrow> vec3 \<Rightarrow> real \<Rightarrow> vec3" where
  "lerp v t alpha =
     Vector3 (vx v + (vx t - vx v) * alpha)
             (vy v + (vy t - vy v) * alpha)
             (vz v + (vz t - vz v) * alpha)"

definition distanceTo :: "vec3 \<Rightarrow> vec3 \<Rightarrow> real" where
  "distanceTo a b =
     sqrt ((vx a - vx b) * (vx a - vx b) + (vy a - vy b) * (vy a - vy b)
           + (vz a - vz b) * (vz a - vz b))"

text \<open>
  Modelled from the spec: \<^verbatim>\<open>THREE.MathUtils.degToRad\<close> (package \<^verbatim>\<open>three\<close>), the conversion from
  degrees to radians of the standard spherical convention: degrees times \<^verbatim>\<open>Math.PI / 180\<close>.
\<close>

definition degToRad :: "real \<Rightarrow> real" where
  "degToRad degrees = degrees * (pi / 180)"

section \<open>GeoProjection: \<^verbatim>\<open>latLonToVec3\<close>\<close>

definition latLonToVec3 :: "real \<Rightarrow> real \<Rightarrow> real \<Rightarrow> vec3" where
  "latLonToVec3 lat lon radius =
     (let phi = degToRad (90 - lat);
          theta = degToRad (lon + 180);
          x = - radius * sin phi * cos theta;
          z = radius * sin phi * sin theta;
          y = radius * cos phi
      in Vector3 x y z)"

section \<open>ArcBuilder: \<^verbatim>\<open>buildArcCurve\<close>\<close>

text \<open>
  The value of \<^verbatim>\<open>new THREE.CatmullRomCurve3([a, up, b])\<close>: the three control points, in
  order.
\<close>

datatype curve = CatmullRomCurve3 vec3 vec3 vec3

definition buildArcCurve :: "vec3 \<Rightarrow> vec3 \<Rightarrow> real \<Rightarrow> curve" where
  "buildArcCurve a b lift =
     (let mid = multiplyScalar (add_v a b) 0.5;
          up = multiplyScalar (normalize_v mid) (length_v mid * (1 + lift))
      in CatmullRomCurve3 a up b)"

text \<open>
  Modelled from the spec: the evaluation of the curve, which is done by
  \<^verbatim>\<open>THREE.CatmullRomCurve3\<close> (package \<^verbatim>\<open>three\<close>, not part of the page's source). The spec
  asks for a Catmull-Rom-style spline through the three points, with \<^verbatim>\<open>pointAtFraction(u)\<close>
  for \<open>u\<close> in [0,1] and \<^verbatim>\<open>samplePoints(count)\<close>. The model is the uniform Catmull-Rom
  spline in Hermite form: on each of the two spans the tangent at a control point is half
  the difference of its two neighbours, and beyond either end the missing neighbour is
  the reflection of the inner one. The fraction \<open>u\<close> runs over both spans, the first
  for \<open>u < 1/2\<close>.
\<close>

definition catmullRom :: "real \<Rightarrow> real \<Rightarrow> real \<Rightarrow> real \<Rightarrow> real \<Rightarrow> real" where
  "catmullRom x0 x1 x2 x3 w =
     (let t1 = (x2 - x0) / 2;
          t2 = (x3 - x1) / 2;
          c0 = x1;
          c1 = t1;
          c2 = - 3 * x1 + 3 * x2 - 2 * t1 - t2;
          c3 = 2 * x1 - 2 * x2 + t1 + t2
      in c0 + c1 * w + c2 * (w * w) + c3 * (w * w * w))"

definition splineSpan :: "vec3 \<Rightarrow> vec3 \<Rightarrow> vec3 \<Rightarrow> vec3 \<Rightarrow> real \<Rightarrow> vec3" where
  "splineSpan p0 p1 p2 p3 w =
     Vector3 (catmullRom (vx p0) (vx p1) (vx p2) (vx p3) w)
             (catmullRom (vy p0) (vy p1) (vy p2) (vy p3) w)
             (catmullRom (vz p0) (vz p1) (vz p2) (vz p3) w)"

definition reflect :: "vec3 \<Rightarrow> vec3 \<Rightarrow> vec3" where
  "reflect p q = Vector3 (2 * vx p - vx q) (2 * vy p - vy q) (2 * vz p - vz q)"

fun pointAtFraction :: "curve \<Rightarrow> real \<Rightarrow> vec3" where
  "pointAtFraction (CatmullRomCurve3 a m b) u =
     (if 2 * u < 1 then splineSpan (reflect a m) a m b (2 * u)
      else splineSpan a m b (reflect b m) (2 * u - 1))"

definition samplePoints :: "curve \<Rightarrow> nat \<Rightarrow> vec3 list" where
  "samplePoints c count = map (\<lambda>k. pointAtFraction c (real k / real count)) [0..<count + 1]"

section \<open>RouteModel: the waypoint table, the route and the arcs of \<^verbatim>\<open>RoutesWow\<close>\<close>

record city =
  lat :: real
  lon :: real

text \<open>
  The table \<^verbatim>\<open>CITY\<close> and the list \<^verbatim>\<open>ROUTE\<close> of the page. A lookup \<^verbatim>\<open>CITY[name]\<close> of a name
  that the table does not hold is \<^verbatim>\<open>undefined\<close>, here \<open>None\<close>.
\<close>

definition CITY :: "string \<rightharpoonup> city" where
  "CITY = map_of
     [(''Lome'', \<lparr>lat = 6.1319, lon = 1.2228\<rparr>),
      (''Libreville'', \<lparr>lat = 0.4162, lon = 9.4673\<rparr>),
      (''Abuja'', \<lparr>lat = 9.0765, lon = 7.3986\<rparr>),
      (''Lagos'', \<lparr>lat = 6.5244, lon = 3.3792\<rparr>),
      (''Abidjan'', \<lparr>lat = 5.3599, lon = - 4.0083\<rparr>),
      (''Pretoria'', \<lparr>lat = - 25.7479, lon = 28.2293\<rparr>),
      (''Cotonou'', \<lparr>lat = 6.3703, lon = 2.3912\<rparr>),
      (''Accra'', \<lparr>lat = 5.6037, lon = - 0.187\<rparr>),
      (''Paris'', \<lparr>lat = 48.8566, lon = 2.3522\<rparr>),
      (''Lille'', \<lparr>lat = 50.6292, lon = 3.0573\<rparr>),
      (''Nice'', \<lparr>lat = 43.7102, lon = 7.262\<rparr>),
      (''Marseille'', \<lparr>lat = 43.2965, lon = 5.3698\<rparr>),
      (''Istanbul'', \<lparr>lat = 41.0082, lon = 28.9784\<rparr>),
      (''Montreal'', \<lparr>lat = 45.5017, lon = - 73.5673\<rparr>),
      (''Stuttgart'', \<lparr>lat = 48.7758, lon = 9.1829\<rparr>),
      (''Bruxelles'', \<lparr>lat = 50.8503, lon = 4.3517\<rparr>),
      (''Rio de Janeiro'', \<lparr>lat = - 22.9068, lon = - 43.1729\<rparr>),
      (''Moscow'', \<lparr>lat = 55.7558, lon = 37.6173\<rparr>),
      (''New York'', \<lparr>lat = 40.7128, lon = - 74.006\<rparr>),
      (''Dubai'', \<lparr>lat = 25.2048, lon = 55.2708\<rparr>)]"

definition ROUTE :: "string list" where
  "ROUTE =
     [''Lome'', ''Libreville'', ''Abuja'', ''Lagos'', ''Abidjan'', ''Pretoria'', ''Cotonou'',
      ''Accra'', ''Paris'', ''Lille'', ''Nice'', ''Marseille'', ''Istanbul'', ''Montreal'',
      ''Stuttgart'', ''Bruxelles'', ''New York'', ''Rio de Janeiro'', ''Dubai'', ''Moscow'']"

record arc =
  key :: string
  curve :: curve
  points :: "vec3 list"
  phase :: real

text \<open>Reading a property of \<^verbatim>\<open>undefined\<close> throws a \<^verbatim>\<open>TypeError\<close>.\<close>

datatype error = TypeError

definition getProp :: "'a option \<Rightarrow> ('a \<Rightarrow> 'b) \<Rightarrow> error + 'b" where
  "getProp obj field = (case obj of None \<Rightarrow> Inl TypeError | Some v \<Rightarrow> Inr (field v))"

text \<open>
  The body of the loop of \<^verbatim>\<open>RoutesWow\<close> after its guard, for the index \<open>i\<close> and the two
  looked-up entries \<open>A\<close> and \<open>B\<close>: the arc that \<^verbatim>\<open>arcs.push\<close> appends, or the exception of
  a property read.
\<close>

definition route_arc :: "string list \<Rightarrow> real \<Rightarrow> nat \<Rightarrow> city option \<Rightarrow> city option \<Rightarrow> error + arc" where
  "route_arc route radius i A B =
     (case getProp A lat of Inl e \<Rightarrow> Inl e | Inr A_lat \<Rightarrow>
      case getProp A lon of Inl e \<Rightarrow> Inl e | Inr A_lon \<Rightarrow>
      case getProp B lat of Inl e \<Rightarrow> Inl e | Inr B_lat \<Rightarrow>
      case getProp B lon of Inl e \<Rightarrow> Inl e | Inr B_lon \<Rightarrow>
        (let a = latLonToVec3 A_lat A_lon (radius * 1.01);
             b = latLonToVec3 B_lat B_lon (radius * 1.01);
             curve = buildArcCurve a b 0.32;
             points = samplePoints curve 170
         in Inr \<lparr>key = route ! i @ ''-'' @ route ! (i + 1), curve = curve, points = points,
                 phase = real i * 0.055\<rparr>))"

text \<open>
  The loop \<^verbatim>\<open>for (let i = 0; i < ROUTE.length - 1; i++)\<close>, for any table and route: \<open>i\<close>
  is the loop index and \<open>arcs\<close> the array built so far. The guard \<^verbatim>\<open>if (!A || !B) continue\<close>
  goes to the next index.
\<close>

function RoutesWow_loop ::
  "(string \<rightharpoonup> city) \<Rightarrow> string list \<Rightarrow> real \<Rightarrow> nat \<Rightarrow> arc list \<Rightarrow> error + arc list" where
  "RoutesWow_loop table route radius i arcs =
     (if i < length route - 1 then
        (let A = table (route ! i);
             B = table (route ! (i + 1))
         in if A = None \<or> B = None then RoutesWow_loop table route radius (i + 1) arcs
            else (case route_arc route radius i A B of
                    Inl e \<Rightarrow> Inl e
                  | Inr arc \<Rightarrow> RoutesWow_loop table route radius (i + 1) (arcs @ [arc])))
      else Inr arcs)"
  by pat_completeness auto
termination
  by (relation "measure (\<lambda>(table, route, radius, i, arcs). length route - 1 - i)") auto

declare RoutesWow_loop.simps [simp del]

definition RoutesWow_arcs :: "(string \<rightharpoonup> city) \<Rightarrow> string list \<Rightarrow> real \<Rightarrow> error + arc list" where
  "RoutesWow_arcs table route radius = RoutesWow_loop table route radius 0 []"

text \<open>
  The indices of the consecutive pairs of a route whose two names are both in the table,
  in route order.
\<close>

definition resolved_pairs :: "(string \<rightharpoonup> city) \<Rightarrow> string list \<Rightarrow> nat list" where
  "resolved_pairs table route =
     filter (\<lambda>i. table (route ! i) \<noteq> None \<and> table (route ! (i + 1)) \<noteq> None)
       [0..<length route - 1]"

text \<open>
  The arc that the loop appends at the index \<open>i\<close> of a pair whose two names are both in
  the table. It is only used at such indices, where both lookups are \<open>Some\<close>.
\<close>

definition arc_at :: "(string \<rightharpoonup> city) \<Rightarrow> string list \<Rightarrow> real \<Rightarrow> nat \<Rightarrow> arc" where
  "arc_at table route radius i =
     (let a = latLonToVec3 (lat (the (table (route ! i)))) (lon (the (table (route ! i)))) (radius * 1.01);
          b = latLonToVec3 (lat (the (table (route ! (i + 1))))) (lon (the (table (route ! (i + 1))))) (radius * 1.01)
      in \<lparr>key = route ! i @ ''-'' @ route ! (i + 1),
          curve = buildArcCurve a b 0.32,
          points = samplePoints (buildArcCurve a b 0.32) 170,
          phase = real i * 0.055\<rparr>)"

section \<open>CameraFocusController: \<^verbatim>\<open>handleClickCity\<close> and \<^verbatim>\<open>CameraRig\<close>\<close>

text \<open>\<^verbatim>\<open>type FocusTarget = { camPos; lookAt } | null\<close>: the null is \<open>None\<close>.\<close>

record focus =
  camPos :: vec3
  lookAt :: vec3

type_synonym FocusTarget = "focus option"

text \<open>
  The state that \<^verbatim>\<open>CameraRig\<close> reads and writes: the live \<^verbatim>\<open>camera.position\<close>, the
  \<^verbatim>\<open>target\<close> of the orbit controls held by \<^verbatim>\<open>controlsRef.current\<close> (\<open>None\<close> when that
  reference is null) and the rig's own \<^verbatim>\<open>current\<close> reference (\<open>None\<close> is Idle, \<open>Some\<close>
  is Converging).
\<close>

record rig =
  camera_position :: vec3
  controls :: "vec3 option"
  current :: FocusTarget

text \<open>
  The click handler of the page: the value it passes to \<^verbatim>\<open>setFocusTarget\<close>. The name of
  the city is received and not used.
\<close>

definition handleClickCity :: "string \<Rightarrow> vec3 \<Rightarrow> focus" where
  "handleClickCity name pos =
     (let dir = normalize_v pos;
          cam = multiplyScalar dir 3.2;
          lookAt = multiplyScalar pos 0.85
      in \<lparr>camPos = cam, lookAt = lookAt\<rparr>)"

text \<open>The effect of \<^verbatim>\<open>CameraRig\<close> on a new \<^verbatim>\<open>target\<close> prop: \<^verbatim>\<open>if (target) current.current = target\<close>.\<close>

definition useEffect_CameraRig :: "FocusTarget \<Rightarrow> rig \<Rightarrow> rig" where
  "useEffect_CameraRig target r =
     (case target of None \<Rightarrow> r | Some t \<Rightarrow> r\<lparr>current := Some t\<rparr>)"

text \<open>A select event: the click handler, then the effect that the new prop triggers.\<close>

definition select :: "string \<Rightarrow> vec3 \<Rightarrow> rig \<Rightarrow> rig" where
  "select name pos r = useEffect_CameraRig (Some (handleClickCity name pos)) r"

text \<open>
  What \<^verbatim>\<open>controls.update()\<close> does in a frame. The orbit widget is \<^verbatim>\<open>OrbitControls\<close> of
  \<^verbatim>\<open>@react-three/drei\<close>, not part of the page's source: its recompute reads the camera
  position and the controls' target as the rig has just set them and may move both (a
  manual drag, its damping, its distance limits). It is a parameter of the frame
  callback: from the two points it is given to the two points it leaves, camera position
  first.
\<close>

type_synonym recompute = "vec3 \<Rightarrow> vec3 \<Rightarrow> vec3 \<times> vec3"

text \<open>
  The frame callback of \<^verbatim>\<open>CameraRig\<close>, with \<open>delta\<close> the frame's time step and \<open>update\<close>
  what \<^verbatim>\<open>controls.update()\<close> does in this frame. \<^verbatim>\<open>Math.pow(0.001, delta)\<close> is
  \<open>0.001 powr delta\<close>. With the controls present the target is eased and the widget
  recomputes; with the controls null neither happens. The stop test reads the camera
  position and the controls' target as they are after that. \<^verbatim>\<open>tgtClose\<close> is
  \<^verbatim>\<open>controls && ...\<close>, falsy when the controls are null.
\<close>

definition useFrame_CameraRig :: "recompute \<Rightarrow> rig \<Rightarrow> real \<Rightarrow> rig" where
  "useFrame_CameraRig update r delta =
     (case current r of
        None \<Rightarrow> r
      | Some t \<Rightarrow>
          (let position = lerp (camera_position r) (camPos t) (1 - 0.001 powr delta);
               updated =
                 (case controls r of
                    None \<Rightarrow> (position, None)
                  | Some target \<Rightarrow>
                      (let target' = lerp target (lookAt t) (1 - 0.001 powr delta);
                           moved = update position target'
                       in (fst moved, Some (snd moved))));
               posClose = (distanceTo (fst updated) (camPos t) < 0.01);
               tgtClose =
                 (case snd updated of
                    None \<Rightarrow> False
                  | Some target \<Rightarrow> distanceTo target (lookAt t) < 0.01)
           in r\<lparr>camera_position := fst updated, controls := snd updated,
                current := (if posClose \<and> tgtClose then None else Some t)\<rparr>))"

text \<open>
  A run of frames, in order: each frame with what the widget's recompute does in it and
  with its time step.
\<close>

definition frames :: "rig \<Rightarrow> (recompute \<times> real) list \<Rightarrow> rig" where
  "frames r fs = foldl (\<lambda>r (update, delta). useFrame_CameraRig update r delta) r fs"


text \<open>
  Modelled from the spec: the recompute of the orbit widget, an external collaborator,
  for the settings that the page passes to it (\<^verbatim>\<open>minDistance={2.1}\<close>, \<^verbatim>\<open>maxDistance={6}\<close>) and
  without manual input. The target stays; the camera stays on its ray from the target
  and is brought to the nearest distance within the two limits; a camera that sits on
  the target is put above it. It is one instance of the parameter \<open>update\<close>, used for the
  examples.
\<close>

definition sub_v :: "vec3 \<Rightarrow> vec3 \<Rightarrow> vec3" where
  "sub_v a b = Vector3 (vx a - vx b) (vy a - vy b) (vz a - vz b)"

definition OrbitControls_update :: recompute where
  "OrbitControls_update position target =
     (let offset = sub_v position target;
          radius = max 2.1 (min 6 (length_v offset));
          offset' = (if length_v offset = 0 then Vector3 0 radius 0
                     else multiplyScalar (normalize_v offset) radius)
      in (add_v target offset', target))"

text \<open>
  The rig when the page has mounted: the camera where the \<^verbatim>\<open>Canvas\<close> puts it, the orbit
  controls aimed at the origin, no focus target. The second state is the same rig while
  \<^verbatim>\<open>controlsRef.current\<close> is still null.
\<close>

definition initial_rig :: rig where
  "initial_rig =
     \<lparr>camera_position = Vector3 0 0.2 3.4, controls = Some (Vector3 0 0 0), current = None\<rparr>"


section \<open>Properties of the projection\<close>

lemma sphere_norm_sq:
  "(- r * sin p * cos t) * (- r * sin p * cos t) + (r * cos p) * (r * cos p)
     + (r * sin p * sin t) * (r * sin p * sin t) = r * r" for r p t :: real
proof -
  have "(- r * sin p * cos t) * (- r * sin p * cos t) + (r * cos p) * (r * cos p)
          + (r * sin p * sin t) * (r * sin p * sin t)
        = r * r * ((sin p)\<^sup>2 * ((cos t)\<^sup>2 + (sin t)\<^sup>2) + (cos p)\<^sup>2)"
    by (simp only: power2_eq_square) algebra
  also have "\<dots> = r * r"
    by simp
  finally show ?thesis .
qed

lemma latLonToVec3_length:
  "length_v (latLonToVec3 latitude longitude radius) = sqrt (radius * radius)"
  unfolding latLonToVec3_def length_v_def Let_def vec3.sel
  by (simp only: sphere_norm_sq)

text \<open>
  C8. The projection is a function of (latitude, longitude, radius) alone: it reads no
  state, so equal inputs give equal outputs. For every latitude and longitude and every
  radius that is not negative, the Euclidean norm of the point it returns is the radius.
\<close>

theorem latLonToVec3_norm:
  assumes "0 \<le> radius"
  shows "length_v (latLonToVec3 latitude longitude radius) = radius
       \<and> (\<forall>la lo ra. la = latitude \<and> lo = longitude \<and> ra = radius \<longrightarrow>
            latLonToVec3 la lo ra = latLonToVec3 latitude longitude radius)"
  using assms by (simp add: latLonToVec3_length)

text \<open>Lome at the radius of the arcs, 1.25 times 1.01.\<close>

theorem latLonToVec3_norm_witness:
  "length_v (latLonToVec3 6.1319 1.2228 (1.25 * 1.01)) = 1.25 * 1.01"
proof -
  have "(0::real) \<le> 1.25 * 1.01"
    by simp
  from latLonToVec3_norm[OF this, of "6.1319" "1.2228"] show ?thesis
    by blast
qed

section \<open>Properties of the arc\<close>

lemma catmullRom_0: "catmullRom x0 x1 x2 x3 0 = x1"
  by (simp add: catmullRom_def)

lemma catmullRom_1: "catmullRom x0 x1 x2 x3 1 = x2"
  by (simp add: catmullRom_def Let_def)

lemma splineSpan_0: "splineSpan p0 p1 p2 p3 0 = p1"
  by (simp add: splineSpan_def catmullRom_0)

lemma splineSpan_1: "splineSpan p0 p1 p2 p3 1 = p2"
  by (simp add: splineSpan_def catmullRom_1)

text \<open>
  C7. For the arc that \<^verbatim>\<open>buildArcCurve\<close> builds from the points \<open>a\<close> and \<open>b\<close> with any
  lift, the point at fraction 0 is \<open>a\<close> and the point at fraction 1 is \<open>b\<close>: the curve
  through [a, elevated control, b] passes through its two end points. This holds for
  every pair of end points, distinct or not.
\<close>

theorem buildArcCurve_endpoints:
  "pointAtFraction (buildArcCurve a b lift) 0 = a
   \<and> pointAtFraction (buildArcCurve a b lift) 1 = b"
  by (simp add: buildArcCurve_def Let_def splineSpan_0 splineSpan_1)

section \<open>Properties of the route\<close>

lemma route_arc_resolved:
  "route_arc route radius i (Some A) (Some B) =
     Inr \<lparr>key = route ! i @ ''-'' @ route ! (i + 1),
          curve = buildArcCurve (latLonToVec3 (lat A) (lon A) (radius * 1.01))
                    (latLonToVec3 (lat B) (lon B) (radius * 1.01)) 0.32,
          points = samplePoints (buildArcCurve (latLonToVec3 (lat A) (lon A) (radius * 1.01))
                    (latLonToVec3 (lat B) (lon B) (radius * 1.01)) 0.32) 170,
          phase = real i * 0.055\<rparr>"
  by (simp add: route_arc_def getProp_def Let_def)

text \<open>The three ways a turn of the loop goes: past the end, skipped by the guard, or an arc pushed.\<close>

lemma RoutesWow_loop_done:
  "\<not> i < length route - 1 \<Longrightarrow> RoutesWow_loop table route radius i arcs = Inr arcs"
  by (subst RoutesWow_loop.simps) simp

lemma RoutesWow_loop_skip:
  "i < length route - 1 \<Longrightarrow> table (route ! i) = None \<or> table (route ! (i + 1)) = None \<Longrightarrow>
   RoutesWow_loop table route radius i arcs = RoutesWow_loop table route radius (i + 1) arcs"
  by (subst RoutesWow_loop.simps) (simp add: Let_def)

lemma RoutesWow_loop_push:
  "i < length route - 1 \<Longrightarrow> table (route ! i) = Some A \<Longrightarrow> table (route ! (i + 1)) = Some B \<Longrightarrow>
   RoutesWow_loop table route radius i arcs
     = RoutesWow_loop table route radius (i + 1) (arcs @ [arc_at table route radius i])"
  by (subst RoutesWow_loop.simps) (simp add: Let_def route_arc_resolved arc_at_def)

text \<open>
  The loop never throws: from any index it returns the array it was given, followed by
  one arc for each later consecutive pair whose two names are in the table.
\<close>

lemma RoutesWow_loop_eq:
  "RoutesWow_loop table route radius i arcs =
     Inr (arcs @ map (arc_at table route radius)
            (filter (\<lambda>i. table (route ! i) \<noteq> None \<and> table (route ! (i + 1)) \<noteq> None)
               [i..<length route - 1]))"
proof (induction table route radius i arcs rule: RoutesWow_loop.induct)
  case (1 table route radius i arcs)
  let ?P = "\<lambda>i. table (route ! i) \<noteq> None \<and> table (route ! (i + 1)) \<noteq> None"
  show ?case
  proof (cases "i < length route - 1")
    case False
    then show ?thesis
      by (simp add: RoutesWow_loop_done)
  next
    case True
    then have upt: "[i..<length route - 1] = i # [i + 1..<length route - 1]"
      by (simp add: upt_conv_Cons)
    show ?thesis
    proof (cases "table (route ! i) = None \<or> table (route ! (i + 1)) = None")
      case skip: True
      then have f: "filter ?P [i..<length route - 1] = filter ?P [i + 1..<length route - 1]"
        unfolding upt by auto
      show ?thesis
        unfolding RoutesWow_loop_skip[OF True skip] f
        by (rule "1.IH"(1)[OF True refl refl skip])
    next
      case both: False
      then obtain A B where AB: "table (route ! i) = Some A" "table (route ! (i + 1)) = Some B"
        by auto
      have f: "filter ?P [i..<length route - 1] = i # filter ?P [i + 1..<length route - 1]"
        unfolding upt using AB by simp
      have arc: "route_arc route radius i (table (route ! i)) (table (route ! (i + 1)))
                   = Inr (arc_at table route radius i)"
        using AB by (simp add: route_arc_resolved arc_at_def Let_def)
      show ?thesis
        unfolding RoutesWow_loop_push[OF True AB] f
        using "1.IH"(2)[OF True refl refl both arc] by simp
    qed
  qed
qed

lemma RoutesWow_arcs_eq:
  "RoutesWow_arcs table route radius =
     Inr (map (arc_at table route radius) (resolved_pairs table route))"
  by (simp add: RoutesWow_arcs_def RoutesWow_loop_eq resolved_pairs_def)

lemma phase_arc_at: "phase (arc_at table route radius i) = real i * 0.055"
  by (simp add: arc_at_def Let_def)

lemma key_arc_at: "key (arc_at table route radius i) = route ! i @ ''-'' @ route ! (i + 1)"
  by (simp add: arc_at_def Let_def)

lemma sorted_resolved_pairs: "sorted_wrt (<) (resolved_pairs table route)"
  unfolding resolved_pairs_def by (rule sorted_wrt_filter) simp

text \<open>
  C9. Building any route with any table returns a list of arcs. The phase of each arc is
  0.055 times the index \<open>i\<close> in the route of the pair (\<^verbatim>\<open>ROUTE[i]\<close>, \<^verbatim>\<open>ROUTE[i + 1]\<close>) it joins,
  so along the list of built arcs the phases are strictly increasing and pairwise
  distinct.
\<close>

theorem RoutesWow_phase_staggering:
  "\<exists>arcs. RoutesWow_arcs table route radius = Inr arcs
     \<and> map phase arcs = map (\<lambda>i. real i * 0.055) (resolved_pairs table route)
     \<and> sorted_wrt (<) (map phase arcs)
     \<and> distinct (map phase arcs)"
proof -
  let ?arcs = "map (arc_at table route radius) (resolved_pairs table route)"
  have ph: "map phase ?arcs = map (\<lambda>i. real i * 0.055) (resolved_pairs table route)"
    by (simp add: phase_arc_at)
  have "sorted_wrt (\<lambda>i j. real i * 0.055 < real j * 0.055) (resolved_pairs table route)"
    by (rule sorted_wrt_mono_rel[OF _ sorted_resolved_pairs]) simp
  then have inc: "sorted_wrt (<) (map phase ?arcs)"
    unfolding ph by (simp add: sorted_wrt_map)
  then have "distinct (map phase ?arcs)"
    by (simp only: strict_sorted_iff)
  with ph inc show ?thesis
    by (intro exI[of _ ?arcs]) (simp only: RoutesWow_arcs_eq simp_thms)
qed

text \<open>Every name of the page's route is in the page's table, so all 19 pairs resolve.\<close>

lemma resolved_pairs_ROUTE: "resolved_pairs CITY ROUTE = [0..<19]"
proof -
  have len: "length ROUTE - 1 = 19"
    by (simp add: ROUTE_def)
  have "\<forall>i\<in>set [0..<19]. CITY (ROUTE ! i) \<noteq> None \<and> CITY (ROUTE ! (i + 1)) \<noteq> None"
    by (simp add: ROUTE_def CITY_def upt_rec)
  then show ?thesis
    unfolding resolved_pairs_def len by (rule filter_True)
qed

text \<open>
  The page's own route: 19 arcs, the arc of pair \<open>i\<close> with phase 0.055 times \<open>i\<close>,
  beginning 0, 0.055, 0.11.
\<close>

theorem RoutesWow_phase_staggering_witness:
  "\<exists>arcs. RoutesWow_arcs CITY ROUTE 1.25 = Inr arcs
     \<and> length arcs = 19
     \<and> map phase arcs = map (\<lambda>i. real i * 0.055) [0..<19]
     \<and> take 3 (map phase arcs) = [0, 0.055, 0.11]"
proof -
  from RoutesWow_phase_staggering[of CITY ROUTE "1.25"]
  obtain arcs where a: "RoutesWow_arcs CITY ROUTE 1.25 = Inr arcs"
    and p: "map phase arcs = map (\<lambda>i. real i * 0.055) (resolved_pairs CITY ROUTE)"
    by blast
  from p have p': "map phase arcs = map (\<lambda>i. real i * 0.055) [0..<19]"
    by (simp only: resolved_pairs_ROUTE)
  then have "length (map phase arcs) = 19"
    by simp
  then have l: "length arcs = 19"
    by simp
  have "take 3 (map phase arcs) = [0, 0.055, 0.11]"
    unfolding p' by (simp add: upt_rec take_map)
  with a l p' show ?thesis
    by blast
qed

text \<open>How many of the first \<open>m\<close> indices are neither \<open>k\<close> nor just before \<open>k\<close>.\<close>

lemma count_single_gap:
  "length (filter (\<lambda>i. i \<noteq> k \<and> Suc i \<noteq> k) [0..<m])
     = m - (if k < m then 1 else 0) - (if 0 < k \<and> k \<le> m then 1 else 0)"
  by (induction m) auto

lemma resolved_pairs_single:
  assumes "\<forall>j<length route. (table (route ! j) = None) = (j = k)"
  shows "resolved_pairs table route = filter (\<lambda>i. i \<noteq> k \<and> Suc i \<noteq> k) [0..<length route - 1]"
  unfolding resolved_pairs_def using assms by (intro filter_cong refl) auto

text \<open>
  C1 (as amended). Building the arcs of any route with any waypoint table never throws,
  and it returns exactly one arc for each consecutive pair of the route whose two names
  are both in the table. So when exactly one entry of a route of at least two names is
  not in the table, the result has \<^verbatim>\<open>route.length - 1\<close> arcs less one if that entry is the
  first or the last of the route, and less two if it is in between, since an inner entry
  belongs to two consecutive pairs.
\<close>

theorem RoutesWow_arcs_count:
  "\<exists>arcs. RoutesWow_arcs table route radius = Inr arcs
     \<and> length arcs = length (resolved_pairs table route)
     \<and> (\<forall>k. 2 \<le> length route \<and> k < length route \<and>
             (\<forall>j<length route. (table (route ! j) = None) = (j = k)) \<longrightarrow>
             length arcs = length route - 1 - (if k = 0 \<or> k = length route - 1 then 1 else 2))"
proof -
  let ?arcs = "map (arc_at table route radius) (resolved_pairs table route)"
  have "length ?arcs = length route - 1 - (if k = 0 \<or> k = length route - 1 then 1 else 2)"
    if "2 \<le> length route" "k < length route"
       "\<forall>j<length route. (table (route ! j) = None) = (j = k)" for k
    using that(1,2)
    by (simp add: resolved_pairs_single[OF that(3)] count_single_gap numeral_2_eq_2)
  then show ?thesis
    by (intro exI[of _ ?arcs]) (simp add: RoutesWow_arcs_eq)
qed

lemma CITY_Lome: "CITY ''Lome'' = Some \<lparr>lat = 6.1319, lon = 1.2228\<rparr>"
  by (simp add: CITY_def)

lemma CITY_Paris: "CITY ''Paris'' = Some \<lparr>lat = 48.8566, lon = 2.3522\<rparr>"
  by (simp add: CITY_def)

lemma CITY_Nowhere: "CITY ''Nowhere'' = None"
  by (simp add: CITY_def)

text \<open>
  The page's table with a route whose last name is unknown: one arc, which is one fewer
  than \<^verbatim>\<open>route.length - 1\<close>.
\<close>

theorem RoutesWow_arcs_count_witness:
  "\<exists>arcs. RoutesWow_arcs CITY [''Lome'', ''Paris'', ''Nowhere''] 1.25 = Inr arcs \<and> length arcs = 1"
proof -
  let ?route = "[''Lome'', ''Paris'', ''Nowhere'']"
  from RoutesWow_arcs_count[of CITY ?route "1.25"]
  obtain arcs where arcs: "RoutesWow_arcs CITY ?route 1.25 = Inr arcs"
    and single: "\<forall>k. 2 \<le> length ?route \<and> k < length ?route \<and>
             (\<forall>j<length ?route. (CITY (?route ! j) = None) = (j = k)) \<longrightarrow>
             length arcs = length ?route - 1 - (if k = 0 \<or> k = length ?route - 1 then 1 else 2)"
    by blast
  have "\<forall>j<length ?route. (CITY (?route ! j) = None) = (j = 2)"
    by (simp add: CITY_Lome CITY_Paris CITY_Nowhere less_Suc_eq numeral_3_eq_3 all_conj_distrib)
  with single[rule_format, of 2] have "length arcs = 1"
    by simp
  with arcs show ?thesis by blast
qed

text \<open>
  C1 as stated fails when the unknown name is inside the route: of the three names
  below only the second is unknown, and no arc is built, where the claim asks for one.
\<close>

theorem RoutesWow_arcs_count_counterexample:
  "RoutesWow_arcs CITY [''Lome'', ''Nowhere'', ''Paris''] 1.25 = Inr []
   \<and> CITY ''Lome'' \<noteq> None \<and> CITY ''Nowhere'' = None \<and> CITY ''Paris'' \<noteq> None
   \<and> length ([] :: arc list) \<noteq> length [''Lome'', ''Nowhere'', ''Paris''] - 1 - 1"
  by (simp add: RoutesWow_arcs_eq resolved_pairs_def CITY_Lome CITY_Paris CITY_Nowhere
      upt_rec[of 0])

text \<open>
  C2 (as amended). The route builder has no test for equal end points. For a consecutive
  pair of names that are both in the table and project to the same point, building the
  route raises no exception and the result holds an arc for that pair like for any other
  resolved pair: its key joins the two names, its phase is 0.055 times the index of the
  pair, and its curve is built by \<^verbatim>\<open>buildArcCurve\<close> from that point to itself.
\<close>

theorem RoutesWow_degenerate_pair:
  assumes "i + 1 < length route"
    and "table (route ! i) = Some A" and "table (route ! (i + 1)) = Some B"
    and "latLonToVec3 (lat A) (lon A) (radius * 1.01) = latLonToVec3 (lat B) (lon B) (radius * 1.01)"
  shows "\<exists>arcs arc. RoutesWow_arcs table route radius = Inr arcs \<and> arc \<in> set arcs
           \<and> key arc = route ! i @ ''-'' @ route ! (i + 1)
           \<and> phase arc = real i * 0.055
           \<and> curve arc = buildArcCurve (latLonToVec3 (lat A) (lon A) (radius * 1.01))
                           (latLonToVec3 (lat A) (lon A) (radius * 1.01)) 0.32"
proof -
  let ?arcs = "map (arc_at table route radius) (resolved_pairs table route)"
  have "i \<in> set (resolved_pairs table route)"
    using assms(1-3) by (simp add: resolved_pairs_def)
  then have "arc_at table route radius i \<in> set ?arcs"
    by simp
  moreover have "curve (arc_at table route radius i)
      = buildArcCurve (latLonToVec3 (lat A) (lon A) (radius * 1.01))
          (latLonToVec3 (lat A) (lon A) (radius * 1.01)) 0.32"
    using assms(2-4) by (simp add: arc_at_def Let_def)
  ultimately show ?thesis
    by (intro exI[of _ ?arcs] exI[of _ "arc_at table route radius i"])
       (simp only: RoutesWow_arcs_eq phase_arc_at key_arc_at simp_thms)
qed

text \<open>The route that goes from Lome to Lome, with the page's table.\<close>

theorem RoutesWow_degenerate_pair_witness:
  "\<exists>arcs arc. RoutesWow_arcs CITY [''Lome'', ''Lome''] 1.25 = Inr arcs \<and> arc \<in> set arcs
      \<and> key arc = ''Lome-Lome''"
proof -
  let ?Lome = "\<lparr>lat = 6.1319, lon = 1.2228\<rparr>"
  have h1: "0 + 1 < length [''Lome'', ''Lome'']"
    by simp
  have h2: "CITY ([''Lome'', ''Lome''] ! 0) = Some ?Lome"
    and h3: "CITY ([''Lome'', ''Lome''] ! (0 + 1)) = Some ?Lome"
    by (simp_all add: CITY_Lome)
  have h4: "latLonToVec3 (lat ?Lome) (lon ?Lome) (1.25 * 1.01)
              = latLonToVec3 (lat ?Lome) (lon ?Lome) (1.25 * 1.01)"
    by (rule refl)
  from RoutesWow_degenerate_pair[OF h1 h2 h3 h4] show ?thesis
    by auto
qed

text \<open>
  C2 as stated fails on that route: its only pair has identical end points, and the
  builder returns one arc for it instead of none.
\<close>

theorem RoutesWow_degenerate_pair_counterexample:
  "map_sum id (map key) (RoutesWow_arcs CITY [''Lome'', ''Lome''] 1.25) = Inr [''Lome-Lome'']"
  by (simp add: RoutesWow_arcs_eq resolved_pairs_def CITY_Lome key_arc_at upt_rec[of 0])

section \<open>Properties of the camera rig\<close>

subsection \<open>Interpolation and distance\<close>







subsection \<open>One frame\<close>

lemma useFrame_Idle: "current r = None \<Longrightarrow> useFrame_CameraRig u r d = r"
  by (simp add: useFrame_CameraRig_def)

lemma useFrame_null_controls:
  "current r = Some t \<Longrightarrow> controls r = None \<Longrightarrow>
   useFrame_CameraRig u r d
     = r\<lparr>camera_position := lerp (camera_position r) (camPos t) (1 - 0.001 powr d)\<rparr>"
  by (simp add: useFrame_CameraRig_def Let_def)

lemma useFrame_position:
  "current r = Some t \<Longrightarrow>
   camera_position (useFrame_CameraRig u r d)
     = (case controls r of
          None \<Rightarrow> lerp (camera_position r) (camPos t) (1 - 0.001 powr d)
        | Some c \<Rightarrow> fst (u (lerp (camera_position r) (camPos t) (1 - 0.001 powr d))
                          (lerp c (lookAt t) (1 - 0.001 powr d))))"
  by (simp add: useFrame_CameraRig_def Let_def split: option.splits)

lemma useFrame_controls:
  "current r = Some t \<Longrightarrow>
   controls (useFrame_CameraRig u r d)
     = (case controls r of
          None \<Rightarrow> None
        | Some c \<Rightarrow> Some (snd (u (lerp (camera_position r) (camPos t) (1 - 0.001 powr d))
                                (lerp c (lookAt t) (1 - 0.001 powr d)))))"
  by (simp add: useFrame_CameraRig_def Let_def split: option.splits)

lemma useFrame_current:
  "current r = Some t \<Longrightarrow>
   current (useFrame_CameraRig u r d) =
     (if distanceTo (camera_position (useFrame_CameraRig u r d)) (camPos t) < 0.01 \<and>
         (case controls (useFrame_CameraRig u r d) of
            None \<Rightarrow> False
          | Some c \<Rightarrow> distanceTo c (lookAt t) < 0.01)
      then None else Some t)"
  by (simp add: useFrame_CameraRig_def Let_def split: option.splits)

lemma useFrame_current_cases:
  "current r = Some t \<Longrightarrow>
   current (useFrame_CameraRig u r d) = None \<or> current (useFrame_CameraRig u r d) = Some t"
  by (simp add: useFrame_current)

lemma useFrame_clears_iff:
  assumes "current r = Some t"
  shows "(current (useFrame_CameraRig u r d) = None) =
         (\<exists>c. controls (useFrame_CameraRig u r d) = Some c \<and>
              distanceTo (camera_position (useFrame_CameraRig u r d)) (camPos t) < 0.01 \<and>
              distanceTo c (lookAt t) < 0.01)"
  unfolding useFrame_current[OF assms]
  by (cases "controls (useFrame_CameraRig u r d)") auto





subsection \<open>Runs of frames\<close>

lemma frames_Nil: "frames r [] = r"
  by (simp add: frames_def)

lemma frames_snoc: "frames r (fs @ [(u, d)]) = useFrame_CameraRig u (frames r fs) d"
  by (simp add: frames_def)


lemma frames_current_cases:
  "current r = Some t \<Longrightarrow> current (frames r fs) = None \<or> current (frames r fs) = Some t"
proof (induction fs rule: rev_induct)
  case Nil
  then show ?case by (simp add: frames_Nil)
next
  case (snoc f fs)
  obtain u d where f: "f = (u, d)" by (cases f)
  from snoc show ?case
    unfolding f frames_snoc
    using useFrame_current_cases[of "frames r fs" t u d] by (auto simp add: useFrame_Idle)
qed

lemma frames_null_controls:
  "current r = Some t \<Longrightarrow> controls r = None \<Longrightarrow>
   current (frames r fs) = Some t \<and> controls (frames r fs) = None"
proof (induction fs rule: rev_induct)
  case Nil
  then show ?case by (simp add: frames_Nil)
next
  case (snoc f fs)
  obtain u d where f: "f = (u, d)" by (cases f)
  from snoc have "current (frames r fs) = Some t" "controls (frames r fs) = None"
    by simp_all
  then show ?case
    unfolding f frames_snoc by (simp add: useFrame_null_controls)
qed





subsection \<open>Select events\<close>

lemma select_fields:
  "camera_position (select name pos r) = camera_position r"
  "controls (select name pos r) = controls r"
  "current (select name pos r) = Some (handleClickCity name pos)"
  by (simp_all add: select_def useEffect_CameraRig_def)


lemma handleClickCity_z:
  "0 < z \<Longrightarrow> handleClickCity name (Vector3 0 0 z)
     = \<lparr>camPos = Vector3 0 0 3.2, lookAt = Vector3 0 0 (z * 0.85)\<rparr>"
  by (simp add: handleClickCity_def normalize_v_def length_v_def multiplyScalar_def Let_def)

subsection \<open>The widget with the page's distance limits\<close>








lemma OrbitControls_update_target: "snd (OrbitControls_update p c) = c"
  by (simp add: OrbitControls_update_def Let_def)






subsection \<open>Examples on the mounted page\<close>

lemma length_v_z: "length_v (Vector3 0 0 z) = \<bar>z\<bar>"
  by (simp add: length_v_def)

lemma distanceTo_z: "distanceTo (Vector3 0 0 z1) (Vector3 0 0 z2) = \<bar>z1 - z2\<bar>"
  by (simp add: distanceTo_def)

lemma OrbitControls_update_z:
  assumes "z2 < z1"
  shows "OrbitControls_update (Vector3 0 0 z1) (Vector3 0 0 z2)
           = (Vector3 0 0 (z2 + max 2.1 (min 6 (z1 - z2))), Vector3 0 0 z2)"
proof -
  have o: "sub_v (Vector3 0 0 z1) (Vector3 0 0 z2) = Vector3 0 0 (z1 - z2)"
    by (simp add: sub_v_def)
  have l: "length_v (Vector3 0 0 (z1 - z2)) = z1 - z2"
    using assms by (simp add: length_v_z)
  have n: "normalize_v (Vector3 0 0 (z1 - z2)) = Vector3 0 0 1"
    using assms by (simp add: normalize_v_def l multiplyScalar_def)
  show ?thesis
    using assms by (simp add: OrbitControls_update_def Let_def o l n multiplyScalar_def add_v_def)
qed






subsection \<open>The claims about the camera\<close>

text \<open>
  C6. For every select event with a name and a position, the focus target that the click
  handler computes, and that the rig then holds, has as camera position the normalised
  position times the camera distance 3.2, and as look-at point the position times the
  inward factor 0.85, which is less than 1.
\<close>

theorem handleClickCity_focus:
  "camPos (handleClickCity name pos) = multiplyScalar (normalize_v pos) 3.2
   \<and> lookAt (handleClickCity name pos) = multiplyScalar pos 0.85
   \<and> (0.85::real) < 1
   \<and> current (select name pos r) = Some (handleClickCity name pos)"
  by (simp add: handleClickCity_def Let_def select_fields)




text \<open>
  C5. Take a select of A, any run of frames after it, and then a select of B. The second
  select leaves the live camera position and the live look-at point exactly as the run
  left them and only replaces the focus target by the target of B. From then on, for as
  long as the rig is Converging, its target is that of B, and every frame eases both live
  values from where they are at that frame toward the camera position and the look-at
  point of B before the widget's recompute, whatever that does; the rig then either stays
  Converging to B or goes Idle, and it goes Idle exactly when the controls exist and both
  live values are within 0.01 of B's two points.
\<close>

theorem CameraRig_reselect:
  "(let r1 = frames (select nameA posA r) fs;
        r2 = select nameB posB r1;
        B = handleClickCity nameB posB
    in camera_position r2 = camera_position r1
       \<and> controls r2 = controls r1
       \<and> current r2 = Some B
       \<and> (\<forall>gs u d. current (frames r2 gs) \<noteq> None \<longrightarrow>
            (let s = frames r2 gs;
                 s' = useFrame_CameraRig u s d;
                 eased = lerp (camera_position s) (camPos B) (1 - 0.001 powr d);
                 eased_target = (\<lambda>c. lerp c (lookAt B) (1 - 0.001 powr d))
             in current s = Some B
                \<and> camera_position s'
                    = (case controls s of None \<Rightarrow> eased | Some c \<Rightarrow> fst (u eased (eased_target c)))
                \<and> controls s'
                    = (case controls s of None \<Rightarrow> None
                       | Some c \<Rightarrow> Some (snd (u eased (eased_target c))))
                \<and> (current s' = None \<or> current s' = Some B)
                \<and> (current s' = None) =
                    (\<exists>c. controls s' = Some c \<and>
                         distanceTo (camera_position s') (camPos B) < 0.01 \<and>
                         distanceTo c (lookAt B) < 0.01))))"
proof -
  let ?r1 = "frames (select nameA posA r) fs"
  let ?r2 = "select nameB posB ?r1"
  let ?B = "handleClickCity nameB posB"
  have c2: "current ?r2 = Some ?B"
    by (rule select_fields)
  have later: "current (frames ?r2 gs) = Some ?B
       \<and> camera_position (useFrame_CameraRig u (frames ?r2 gs) d)
           = (case controls (frames ?r2 gs) of
                None \<Rightarrow> lerp (camera_position (frames ?r2 gs)) (camPos ?B) (1 - 0.001 powr d)
              | Some c \<Rightarrow> fst (u (lerp (camera_position (frames ?r2 gs)) (camPos ?B) (1 - 0.001 powr d))
                                (lerp c (lookAt ?B) (1 - 0.001 powr d))))
       \<and> controls (useFrame_CameraRig u (frames ?r2 gs) d)
           = (case controls (frames ?r2 gs) of
                None \<Rightarrow> None
              | Some c \<Rightarrow> Some (snd (u (lerp (camera_position (frames ?r2 gs)) (camPos ?B) (1 - 0.001 powr d))
                                      (lerp c (lookAt ?B) (1 - 0.001 powr d)))))
       \<and> (current (useFrame_CameraRig u (frames ?r2 gs) d) = None
          \<or> current (useFrame_CameraRig u (frames ?r2 gs) d) = Some ?B)
       \<and> (current (useFrame_CameraRig u (frames ?r2 gs) d) = None) =
           (\<exists>c. controls (useFrame_CameraRig u (frames ?r2 gs) d) = Some c \<and>
                distanceTo (camera_position (useFrame_CameraRig u (frames ?r2 gs) d)) (camPos ?B) < 0.01 \<and>
                distanceTo c (lookAt ?B) < 0.01)"
    if "current (frames ?r2 gs) \<noteq> None" for gs u d
  proof -
    from that frames_current_cases[OF c2, of gs] have s: "current (frames ?r2 gs) = Some ?B"
      by auto
    show ?thesis
      by (intro conjI s useFrame_position[OF s] useFrame_controls[OF s]
          useFrame_current_cases[OF s] useFrame_clears_iff[OF s])
  qed
  show ?thesis
    unfolding Let_def
  proof (intro conjI allI impI select_fields)
    fix gs u d
    assume "current (frames ?r2 gs) \<noteq> None"
    then show "current (frames ?r2 gs) = Some ?B"
      by (rule later[THEN conjunct1])
  qed (elim later[THEN conjunct2, THEN conjunct1]
         later[THEN conjunct2, THEN conjunct2, THEN conjunct1]
         later[THEN conjunct2, THEN conjunct2, THEN conjunct2, THEN conjunct1]
         later[THEN conjunct2, THEN conjunct2, THEN conjunct2, THEN conjunct2])+
qed

text \<open>
  A select of the point (0, 0, 1), a frame of a third of a second with the widget of the
  page, then a select of the point (0, 0, 2): the rig is Converging to the second
  target, and its next frame goes Idle exactly when both live values are within 0.01 of
  the second target's two points.
\<close>

theorem CameraRig_reselect_witness:
  "current (frames (select ''Paris'' (Vector3 0 0 2)
        (frames (select ''Lome'' (Vector3 0 0 1) initial_rig) [(OrbitControls_update, 1/3)])) [])
     = Some \<lparr>camPos = Vector3 0 0 3.2, lookAt = Vector3 0 0 1.7\<rparr>
   \<and> (current (useFrame_CameraRig OrbitControls_update (frames (select ''Paris'' (Vector3 0 0 2)
        (frames (select ''Lome'' (Vector3 0 0 1) initial_rig) [(OrbitControls_update, 1/3)])) []) 1)
       = None) =
      (\<exists>c. controls (useFrame_CameraRig OrbitControls_update (frames (select ''Paris'' (Vector3 0 0 2)
              (frames (select ''Lome'' (Vector3 0 0 1) initial_rig) [(OrbitControls_update, 1/3)])) []) 1)
             = Some c \<and>
           distanceTo (camera_position (useFrame_CameraRig OrbitControls_update
              (frames (select ''Paris'' (Vector3 0 0 2)
                (frames (select ''Lome'' (Vector3 0 0 1) initial_rig) [(OrbitControls_update, 1/3)])) []) 1))
             (Vector3 0 0 3.2) < 0.01 \<and>
           distanceTo c (Vector3 0 0 1.7) < 0.01)"
proof -
  let ?r1 = "frames (select ''Lome'' (Vector3 0 0 1) initial_rig) [(OrbitControls_update, 1/3)]"
  let ?r2 = "select ''Paris'' (Vector3 0 0 2) ?r1"
  have B: "handleClickCity ''Paris'' (Vector3 0 0 2)
             = \<lparr>camPos = Vector3 0 0 3.2, lookAt = Vector3 0 0 1.7\<rparr>"
    using handleClickCity_z[of 2 "''Paris''"] by simp
  note R = CameraRig_reselect[where nameB = "''Paris''" and posB = "Vector3 0 0 2"
      and nameA = "''Lome''" and posA = "Vector3 0 0 1" and r = initial_rig
      and fs = "[(OrbitControls_update, 1/3)]", unfolded Let_def]
  have conv: "current (frames ?r2 []) \<noteq> None"
    by (simp add: frames_Nil select_fields)
  from R conv have "current (frames ?r2 []) = Some (handleClickCity ''Paris'' (Vector3 0 0 2))"
    by blast
  then have a: "current (frames ?r2 []) = Some \<lparr>camPos = Vector3 0 0 3.2, lookAt = Vector3 0 0 1.7\<rparr>"
    by (simp only: B)
  from R conv have "(current (useFrame_CameraRig OrbitControls_update (frames ?r2 []) 1) = None) =
      (\<exists>c. controls (useFrame_CameraRig OrbitControls_update (frames ?r2 []) 1) = Some c \<and>
           distanceTo (camera_position (useFrame_CameraRig OrbitControls_update (frames ?r2 []) 1))
             (camPos (handleClickCity ''Paris'' (Vector3 0 0 2))) < 0.01 \<and>
           distanceTo c (lookAt (handleClickCity ''Paris'' (Vector3 0 0 2))) < 0.01)"
    by blast
  then have b: "(current (useFrame_CameraRig OrbitControls_update (frames ?r2 []) 1) = None) =
      (\<exists>c. controls (useFrame_CameraRig OrbitControls_update (frames ?r2 []) 1) = Some c \<and>
           distanceTo (camera_position (useFrame_CameraRig OrbitControls_update (frames ?r2 []) 1))
             (Vector3 0 0 3.2) < 0.01 \<and>
           distanceTo c (Vector3 0 0 1.7) < 0.01)"
    by (simp add: B)
  from a b show ?thesis by blast
qed

text \<open>
  C10. While the orbit controls are absent, no run of frames clears the focus target: a
  rig that is Converging to \<open>t\<close> stays so, wherever the camera is and whatever the
  widget's recompute would do. And a frame that does clear the target had the controls
  present, with the controls' target within 0.01 of the look-at point and the camera
  within 0.01 of its position after that frame.
\<close>

theorem CameraRig_null_controls:
  assumes "current r = Some t"
  shows "(controls r = None \<longrightarrow> (\<forall>fs. current (frames r fs) = Some t))
       \<and> (\<forall>u d. current (useFrame_CameraRig u r d) = None \<longrightarrow>
            (\<exists>c c'. controls r = Some c \<and> controls (useFrame_CameraRig u r d) = Some c' \<and>
                    distanceTo c' (lookAt t) < 0.01 \<and>
                    distanceTo (camera_position (useFrame_CameraRig u r d)) (camPos t) < 0.01))"
proof (intro conjI allI impI)
  fix fs
  assume "controls r = None"
  with assms show "current (frames r fs) = Some t"
    by (simp add: frames_null_controls)
next
  fix u d
  assume idle: "current (useFrame_CameraRig u r d) = None"
  then obtain c' where c': "controls (useFrame_CameraRig u r d) = Some c'"
      "distanceTo (camera_position (useFrame_CameraRig u r d)) (camPos t) < 0.01"
      "distanceTo c' (lookAt t) < 0.01"
    unfolding useFrame_clears_iff[OF assms] by blast
  from c'(1) obtain c where "controls r = Some c"
    unfolding useFrame_controls[OF assms] by (cases "controls r") simp_all
  with c' show "\<exists>c c'. controls r = Some c \<and> controls (useFrame_CameraRig u r d) = Some c' \<and>
                    distanceTo c' (lookAt t) < 0.01 \<and>
                    distanceTo (camera_position (useFrame_CameraRig u r d)) (camPos t) < 0.01"
    by blast
qed

text \<open>
  A rig whose camera sits on its target: without controls it is still Converging after
  two frames, although the camera is within 0.01 of the target; with the controls on
  the look-at point, one frame with the widget of the page clears the target.
\<close>

theorem CameraRig_null_controls_witness:
  "distanceTo (camera_position (useFrame_CameraRig OrbitControls_update
       \<lparr>camera_position = Vector3 0 0 3.2, controls = None,
        current = Some \<lparr>camPos = Vector3 0 0 3.2, lookAt = Vector3 0 0 0.85\<rparr>\<rparr> 1))
     (Vector3 0 0 3.2) < 0.01
   \<and> current (frames
       \<lparr>camera_position = Vector3 0 0 3.2, controls = None,
        current = Some \<lparr>camPos = Vector3 0 0 3.2, lookAt = Vector3 0 0 0.85\<rparr>\<rparr>
       [(OrbitControls_update, 1), (OrbitControls_update, 1)])
     = Some \<lparr>camPos = Vector3 0 0 3.2, lookAt = Vector3 0 0 0.85\<rparr>
   \<and> current (useFrame_CameraRig OrbitControls_update
       \<lparr>camera_position = Vector3 0 0 3.2, controls = Some (Vector3 0 0 0.85),
        current = Some \<lparr>camPos = Vector3 0 0 3.2, lookAt = Vector3 0 0 0.85\<rparr>\<rparr> 1) = None
   \<and> (\<exists>c'. controls (useFrame_CameraRig OrbitControls_update
       \<lparr>camera_position = Vector3 0 0 3.2, controls = Some (Vector3 0 0 0.85),
        current = Some \<lparr>camPos = Vector3 0 0 3.2, lookAt = Vector3 0 0 0.85\<rparr>\<rparr> 1) = Some c'
        \<and> distanceTo c' (Vector3 0 0 0.85) < 0.01)"
proof -
  let ?t = "\<lparr>camPos = Vector3 0 0 3.2, lookAt = Vector3 0 0 0.85\<rparr>"
  let ?r1 = "\<lparr>camera_position = Vector3 0 0 3.2, controls = None, current = Some ?t\<rparr>"
  let ?r2 = "\<lparr>camera_position = Vector3 0 0 3.2, controls = Some (Vector3 0 0 0.85),
              current = Some ?t\<rparr>"
  let ?u = OrbitControls_update
  have c1: "current ?r1 = Some ?t" and c2: "current ?r2 = Some ?t"
    by simp_all
  have stay: "lerp v v x = v" for v x
    by (simp add: lerp_def)
  have a: "distanceTo (camera_position (useFrame_CameraRig ?u ?r1 1)) (Vector3 0 0 3.2) < 0.01"
    unfolding useFrame_position[OF c1] by (simp add: stay distanceTo_z)
  from CameraRig_null_controls[OF c1] have b: "current (frames ?r1 [(?u, 1), (?u, 1)]) = Some ?t"
    by simp
  have w: "?u (Vector3 0 0 3.2) (Vector3 0 0 0.85) = (Vector3 0 0 3.2, Vector3 0 0 0.85)"
    by (simp add: OrbitControls_update_z)
  have c: "current (useFrame_CameraRig ?u ?r2 1) = None"
    unfolding useFrame_clears_iff[OF c2] useFrame_position[OF c2] useFrame_controls[OF c2]
    using w by (simp add: stay distanceTo_z)
  with CameraRig_null_controls[OF c2] have
    "\<exists>c c'. controls ?r2 = Some c \<and> controls (useFrame_CameraRig ?u ?r2 1) = Some c' \<and>
            distanceTo c' (lookAt ?t) < 0.01 \<and>
            distanceTo (camera_position (useFrame_CameraRig ?u ?r2 1)) (camPos ?t) < 0.01"
    by blast
  then have d: "\<exists>c'. controls (useFrame_CameraRig ?u ?r2 1) = Some c'
        \<and> distanceTo c' (Vector3 0 0 0.85) < 0.01"
    by auto
  from a b c d show ?thesis by blast
qed




end
